theory Spec2Isabelle
  imports Complex_Main
begin

section \<open>The JavaScript primitives the decimal kernel is built on\<close>

text \<open>
  The kernel of \<^verbatim>\<open>src/index.js\<close> keeps a decimal as a pair of a \<^verbatim>\<open>BigInt\<close> (field
  \<^verbatim>\<open>v\<close>, signed) and a scale (field \<^verbatim>\<open>dp\<close>, a small JavaScript number), and moves
  between the two through decimal strings: \<^verbatim>\<open>v.toString()\<close>, \<^verbatim>\<open>BigInt(str)\<close>,
  \<^verbatim>\<open>str.slice\<close>, \<^verbatim>\<open>"0".repeat\<close>.  These built-ins are modelled on character lists,
  every exception as a value of \<open>error\<close>.
\<close>

datatype error =
    InvalidFormat        \<comment> \<open>\<^verbatim>\<open>new Error("Invalid number notation: ...")\<close>\<close>
  | DivisionByZero       \<comment> \<open>\<^verbatim>\<open>new Error("Can't divide by zero.")\<close>\<close>
  | NegativeSquareRoot   \<comment> \<open>\<^verbatim>\<open>new Error("Can't take the square root of a negative number ...")\<close>\<close>
  | SyntaxError          \<comment> \<open>thrown by \<^verbatim>\<open>BigInt(str)\<close> on a string that is no integer literal\<close>
  | RangeError           \<comment> \<open>thrown by \<^verbatim>\<open>BigInt(num)\<close> on a non-integral number, by \<^verbatim>\<open>repeat\<close> on a negative count\<close>

definition bindE :: "error + 'a \<Rightarrow> ('a \<Rightarrow> error + 'b) \<Rightarrow> error + 'b" where
  "bindE m f = (case m of Inl e \<Rightarrow> Inl e | Inr x \<Rightarrow> f x)"

definition is_digit :: "char \<Rightarrow> bool" where
  "is_digit c = (c \<in> set ''0123456789'')"

definition digit_char :: "nat \<Rightarrow> char" where
  "digit_char d = ''0123456789'' ! (d mod 10)"

definition digit_val :: "char \<Rightarrow> nat" where
  "digit_val c = (of_char c - 48) mod 10"

text \<open>Decimal digits of a natural number, most significant first, no leading zero.\<close>

fun digits_of_nat :: "nat \<Rightarrow> string" where
  "digits_of_nat n =
     (if n < 10 then [digit_char n] else digits_of_nat (n div 10) @ [digit_char (n mod 10)])"

declare digits_of_nat.simps [simp del]

definition nat_of_digits :: "string \<Rightarrow> nat" where
  "nat_of_digits ds = foldl (\<lambda>a c. 10 * a + digit_val c) 0 ds"

text \<open>\<^verbatim>\<open>v.toString()\<close> of a BigInt: a minus sign for a negative value, then the digits.\<close>

definition bigint_toString :: "int \<Rightarrow> string" where
  "bigint_toString n =
     (if n < 0 then CHR ''-'' # digits_of_nat (nat (- n)) else digits_of_nat (nat n))"

text \<open>
  \<^verbatim>\<open>BigInt(str)\<close> on the strings the kernel builds (digits with at most one leading sign):
  the empty string is \<open>0n\<close>, a sign with no digit after it is a \<^verbatim>\<open>SyntaxError\<close>.
\<close>

definition BigInt_string :: "string \<Rightarrow> error + int" where
  "BigInt_string s =
     (if s = [] then Inr 0
      else
        let neg = (hd s = CHR ''-'');
            ds = (if hd s = CHR ''-'' \<or> hd s = CHR ''+'' then tl s else s)
        in if ds \<noteq> [] \<and> list_all is_digit ds
           then Inr (if neg then - int (nat_of_digits ds) else int (nat_of_digits ds))
           else Inl SyntaxError)"

text \<open>\<^verbatim>\<open>str.slice(0, -k)\<close> for \<open>k > 0\<close>: all but the last \<open>k\<close> characters, empty when \<open>k\<close>
  reaches the length.\<close>

definition slice_off :: "string \<Rightarrow> int \<Rightarrow> string" where
  "slice_off s k = take (nat (int (length s) - k)) s"

text \<open>\<^verbatim>\<open>"0".repeat(k)\<close> throws a \<^verbatim>\<open>RangeError\<close> on a negative count.\<close>

definition repeat0 :: "int \<Rightarrow> error + string" where
  "repeat0 k = (if k < 0 then Inl RangeError else Inr (replicate (nat k) CHR ''0''))"

text \<open>
  \<^verbatim>\<open>sign * val\<close> in the constructor multiplies a number by a string, so the digit string
  is first converted to a Number, an IEEE 754 double.  On a string of digits the result is
  the double nearest to the integer the digits denote, ties to the even significand, and
  \<^verbatim>\<open>Infinity\<close> (here \<open>None\<close>) from \<open>2^1024 - 2^970\<close> on.  (Beyond 20 significant digits
  ECMAScript allows an implementation to round less exactly; the engines round correctly.)
\<close>

fun bit_length :: "nat \<Rightarrow> nat" where
  "bit_length n = (if n = 0 then 0 else Suc (bit_length (n div 2)))"

declare bit_length.simps [simp del]

definition round_to_double :: "nat \<Rightarrow> nat option" where
  "round_to_double n =
     (if n < 2 ^ 53 then Some n
      else
        let e = bit_length n - 53;
            q = n div 2 ^ e;
            r = n mod 2 ^ e;
            h = 2 ^ (e - 1);
            q' = (if r > h \<or> (r = h \<and> odd q) then q + 1 else q);
            m = q' * 2 ^ e
        in if m \<ge> 2 ^ 1024 then None else Some m)"

definition Number_digits :: "string \<Rightarrow> nat option" where
  "Number_digits ds = round_to_double (nat_of_digits ds)"

text \<open>\<^verbatim>\<open>BigInt(sign * val)\<close>: \<^verbatim>\<open>BigInt\<close> of a number throws a \<^verbatim>\<open>RangeError\<close> on
  \<^verbatim>\<open>Infinity\<close>; an integral double converts exactly, \<open>-0\<close> to \<open>0n\<close>.\<close>

definition BigInt_number :: "int \<Rightarrow> nat option \<Rightarrow> error + int" where
  "BigInt_number sg m = (case m of None \<Rightarrow> Inl RangeError | Some k \<Rightarrow> Inr (sg * int k))"

text \<open>BigInt \<^verbatim>\<open>/\<close> and \<^verbatim>\<open>%\<close> truncate towards zero.\<close>

definition bigint_div :: "int \<Rightarrow> int \<Rightarrow> int" where
  "bigint_div a b = sgn a * sgn b * (\<bar>a\<bar> div \<bar>b\<bar>)"

definition bigint_rem :: "int \<Rightarrow> int \<Rightarrow> int" where
  "bigint_rem a b = sgn a * (\<bar>a\<bar> mod \<bar>b\<bar>)"

section \<open>BigDec: the constructor\<close>

record bigdec =
  dp :: int
  v :: int

definition FLOAT_PRECISION :: int where
  "FLOAT_PRECISION = 20"

definition ZERO :: bigdec where
  "ZERO = \<lparr>dp = 0, v = 0\<rparr>"

text \<open>The regular expression \<^verbatim>\<open>/^-?\d*(\.\d*)?$/\<close>.\<close>

definition decimal_notation :: "string \<Rightarrow> bool" where
  "decimal_notation s =
     (let s1 = (if s \<noteq> [] \<and> hd s = CHR ''-'' then tl s else s);
          rest = dropWhile is_digit s1
      in rest = [] \<or> (hd rest = CHR ''.'' \<and> list_all is_digit (tl rest)))"

text \<open>\<^verbatim>\<open>val.indexOf(".")\<close>, with the length in place of \<open>-1\<close> as the constructor has it.\<close>

definition decimalPoint_of :: "string \<Rightarrow> nat" where
  "decimalPoint_of s = length (takeWhile (\<lambda>c. c \<noteq> CHR ''.'') s)"

text \<open>
  The end of the constructor, run on every path but the early \<^verbatim>\<open>return ZERO\<close>: a scale
  above \<^verbatim>\<open>FLOAT_PRECISION\<close> is cut back by slicing the excess characters off the end of
  \<^verbatim>\<open>v.toString()\<close> and converting what is left with \<^verbatim>\<open>BigInt\<close>.
\<close>

definition clamp_precision :: "bigdec \<Rightarrow> error + bigdec" where
  "clamp_precision x =
     (if dp x > FLOAT_PRECISION then
        (let diff = dp x - FLOAT_PRECISION
         in bindE (BigInt_string (slice_off (bigint_toString (v x)) diff))
              (\<lambda>w. Inr \<lparr>dp = FLOAT_PRECISION, v = w\<rparr>))
      else Inr x)"

text \<open>\<^verbatim>\<open>new BigDec({dp, v})\<close>: the fields are assigned, then the scale is clamped.\<close>

definition BigDec_obj :: "bigdec \<Rightarrow> error + bigdec" where
  "BigDec_obj val = clamp_precision val"

text \<open>\<^verbatim>\<open>BigDec(str)\<close> on a string (a number or a bigint argument is first turned into its
  decimal string and takes the same path).\<close>

definition BigDec_string :: "string \<Rightarrow> error + bigdec" where
  "BigDec_string val0 =
     (let val1 = filter (\<lambda>c. c \<noteq> CHR '' '') val0
      in if val1 = [] \<or> val1 = ''0'' then Inr ZERO
         else
           let val2 = (if hd val1 = CHR ''+'' then tl val1 else val1)
           in if \<not> decimal_notation val2 then Inl InvalidFormat
              else
                let sign = (if val2 \<noteq> [] \<and> hd val2 = CHR ''-'' then - 1 else (1::int));
                    val3 = (if sign = - 1 then tl val2 else val2);
                    decimalPoint = decimalPoint_of val3;
                    val4 = take decimalPoint val3 @ drop (decimalPoint + 1) val3
                in bindE (BigInt_number sign (Number_digits val4))
                     (\<lambda>w. clamp_precision \<lparr>dp = int (length val4) - int decimalPoint, v = w\<rparr>))"

section \<open>BigDec: the operations\<close>

text \<open>\<^verbatim>\<open>_simplifyPrecision\<close>: the loop drops one trailing zero of the fraction per round.\<close>

function simplifyPrecision :: "bigdec \<Rightarrow> bigdec" where
  "simplifyPrecision x =
     (if dp x > 0 \<and> bigint_rem (v x) 10 = 0
      then simplifyPrecision \<lparr>dp = dp x - 1, v = bigint_div (v x) 10\<rparr>
      else x)"
  by pat_completeness auto
termination
  by (relation "measure (\<lambda>x. nat (dp x))") auto

declare simplifyPrecision.simps [simp del]

definition isZero :: "bigdec \<Rightarrow> bool" where
  "isZero x = (v x = 0)"

definition clone :: "bigdec \<Rightarrow> error + bigdec" where
  "clone x = BigDec_obj \<lparr>dp = dp x, v = v x\<rparr>"

definition negate :: "bigdec \<Rightarrow> error + bigdec" where
  "negate x = BigDec_obj \<lparr>dp = dp x, v = - v x\<rparr>"

definition digitCount :: "bigdec \<Rightarrow> int" where
  "digitCount x = int (length (bigint_toString (v x)))"

definition posDigitCount :: "bigdec \<Rightarrow> int" where
  "posDigitCount x = digitCount x - dp x"

definition eq :: "bigdec \<Rightarrow> bigdec \<Rightarrow> bool" where
  "eq x dec = (v x = v dec \<and> dp x = dp dec)"

definition sign :: "bigdec \<Rightarrow> int" where
  "sign x = (if v x > 0 then 1 else (if v x = 0 then 0 else - 1))"

text \<open>\<^verbatim>\<open>cmp\<close>: the source documents the result as
  \<^verbatim>\<open>1 <=> this > dec\<close>, \<^verbatim>\<open>0 <=> this = dec\<close>, \<^verbatim>\<open>-1 <=> this < dec\<close>.\<close>

definition cmp :: "bigdec \<Rightarrow> bigdec \<Rightarrow> int" where
  "cmp x dec =
     (if eq x dec then 0
      else
        let signT = sign x; signD = sign dec
        in if signT \<noteq> signD then (if signT > signD then 1 else - 1)
           else
             let thD = posDigitCount x; deD = posDigitCount dec
             in if thD \<noteq> deD then (if thD > deD then 1 else - 1)
                else (if v x > v dec then 1 else - 1))"

definition gt :: "bigdec \<Rightarrow> bigdec \<Rightarrow> bool" where
  "gt x dec = (cmp x dec = 1)"

definition lt :: "bigdec \<Rightarrow> bigdec \<Rightarrow> bool" where
  "lt x dec = (cmp x dec = - 1)"

definition shiftLeft :: "bigdec \<Rightarrow> int \<Rightarrow> error + bigdec" where
  "shiftLeft x amount =
     bindE (repeat0 amount) (\<lambda>zeros.
     bindE (BigInt_string (bigint_toString (v x) @ zeros)) (\<lambda>w.
       BigDec_obj \<lparr>dp = dp x + amount, v = w\<rparr>))"

text \<open>\<^verbatim>\<open>abs\<close> passes \<^verbatim>\<open>{dp, sign: 1, v}\<close> to the constructor, which assigns the three fields.
  The sign of a BigDec is the sign of \<^verbatim>\<open>v\<close>, and \<^verbatim>\<open>v\<close> is assigned as it is.  (The
  \<^verbatim>\<open>sign\<close> property left on the result is read by nothing; it hides the method
  \<^verbatim>\<open>sign()\<close> on that object, which matters only to a later \<^verbatim>\<open>cmp\<close> on it and is not
  part of the record.)\<close>

definition abs_dec :: "bigdec \<Rightarrow> error + bigdec" where
  "abs_dec x = BigDec_obj \<lparr>dp = dp x, v = v x\<rparr>"

definition add :: "bigdec \<Rightarrow> bigdec \<Rightarrow> error + bigdec" where
  "add x b0 =
     (if dp x \<noteq> dp b0 then
        (let len = \<bar>dp x - dp b0\<bar>
         in bindE (if dp x > dp b0 then shiftLeft b0 len else Inr b0) (\<lambda>b.
            bindE (if dp b > dp x then shiftLeft x len else Inr x) (\<lambda>a.
              BigDec_obj \<lparr>dp = dp a, v = v a + v b\<rparr>)))
      else BigDec_obj \<lparr>dp = dp x, v = v x + v b0\<rparr>)"

definition sub :: "bigdec \<Rightarrow> bigdec \<Rightarrow> error + bigdec" where
  "sub x dec = bindE (negate dec) (\<lambda>n. add x n)"

definition mul :: "bigdec \<Rightarrow> bigdec \<Rightarrow> error + bigdec" where
  "mul x dec = BigDec_obj \<lparr>dp = dp x + dp dec, v = v x * v dec\<rparr>"

text \<open>The regular expression \<^verbatim>\<open>/^-?10*$/\<close>.\<close>

definition power_of_ten_notation :: "string \<Rightarrow> bool" where
  "power_of_ten_notation s =
     (let s1 = (if s \<noteq> [] \<and> hd s = CHR ''-'' then tl s else s)
      in s1 \<noteq> [] \<and> hd s1 = CHR ''1'' \<and> list_all (\<lambda>c. c = CHR ''0'') (tl s1))"

text \<open>The long division of \<^verbatim>\<open>inverse\<close>: at most \<^verbatim>\<open>FLOAT_PRECISION\<close> rounds, each
  appending the quotient \<^verbatim>\<open>n / vUse\<close> to the result string, stopping at remainder zero.\<close>

fun inverse_loop :: "nat \<Rightarrow> int \<Rightarrow> int \<Rightarrow> string \<Rightarrow> string" where
  "inverse_loop 0 n vUse result = result"
| "inverse_loop (Suc i) n vUse result =
     (let md = bigint_rem n vUse;
          result' = result @ bigint_toString (bigint_div n vUse)
      in if md = 0 then result' else inverse_loop i (md * 10) vUse result')"

definition inverse_dec :: "bigdec \<Rightarrow> error + bigdec" where
  "inverse_dec x =
     (if isZero x then Inl DivisionByZero
      else
        let vStr = bigint_toString (v x)
        in if power_of_ten_notation vStr then
             (let vStr' = (if hd vStr = CHR ''-'' then tl vStr else vStr);
                  dp' = int (length vStr') - 1 - dp x
              in if dp' > 0 then BigDec_obj \<lparr>dp = dp', v = 1\<rparr>
                 else
                   bindE (repeat0 (- dp')) (\<lambda>zeros.
                   bindE (BigInt_string ((if v x > 0 then [] else ''-'') @ ''1'' @ zeros)) (\<lambda>w.
                     BigDec_obj \<lparr>dp = 0, v = w\<rparr>)))
           else
             (let count = digitCount x
              in bindE (repeat0 count) (\<lambda>zeros.
                 bindE (BigInt_string (''1'' @ zeros)) (\<lambda>n.
                   let vUse = (if v x > 0 then v x else - v x);
                       result = inverse_loop (nat FLOAT_PRECISION) n vUse []
                   in bindE (BigInt_string ((if v x > 0 then [] else ''-'') @ result)) (\<lambda>w.
                        BigDec_obj \<lparr>dp = count + int (length result) - 1 - dp x, v = w\<rparr>)))))"

definition div_dec :: "bigdec \<Rightarrow> bigdec \<Rightarrow> error + bigdec" where
  "div_dec x dec =
     bindE (inverse_dec dec) (\<lambda>i. bindE (mul x i) (\<lambda>m. Inr (simplifyPrecision m)))"

definition square :: "bigdec \<Rightarrow> error + bigdec" where
  "square x = mul x x"

definition cube :: "bigdec \<Rightarrow> error + bigdec" where
  "cube x = bindE (mul x x) (\<lambda>m. mul x m)"

text \<open>The Newton iteration of \<^verbatim>\<open>sqrt\<close>, at most 100000 rounds.  The literal \<^verbatim>\<open>2\<close> is made a
  BigDec by the constructor through its string \<^verbatim>\<open>"2"\<close>.  Running out of rounds returns
  the current iterate (the \<^verbatim>\<open>console.warn\<close> there is output only, the result is the same
  kind of value).\<close>

fun sqrt_loop :: "nat \<Rightarrow> bigdec \<Rightarrow> bigdec \<Rightarrow> error + bigdec" where
  "sqrt_loop 0 this x = Inr x"
| "sqrt_loop (Suc i) this x =
     bindE (div_dec this x) (\<lambda>a.
     bindE (add x a) (\<lambda>b.
     bindE (BigDec_string ''2'') (\<lambda>two.
     bindE (div_dec b two) (\<lambda>c.
     bindE (sub c x) (\<lambda>dx.
       if isZero dx then Inr x else sqrt_loop i this c)))))"

definition sqrt_dec :: "bigdec \<Rightarrow> error + bigdec" where
  "sqrt_dec x =
     (if v x < 0 then Inl NegativeSquareRoot
      else if v x = 0 \<or> v x = 1 then Inr x
      else
        bindE (BigDec_string ''2'') (\<lambda>two.
        bindE (div_dec x two) (\<lambda>x0. sqrt_loop 100000 x x0)))"

definition toString :: "bigdec \<Rightarrow> string" where
  "toString x =
     (if isZero x then ''0''
      else
        let str0 = bigint_toString (v x);
            str1 = (if hd str0 = CHR ''-'' then tl str0 else str0);
            str2 = (if int (length str1) < dp x
                    then replicate (nat (dp x - int (length str1))) CHR ''0'' @ str1 else str1);
            str3 = (if dp x > 0 then
                      (let pnt = nat (int (length str2) - dp x);
                           withPoint = take pnt str2 @ ''.'' @ drop pnt str2
                       in rev (dropWhile (\<lambda>c. c = CHR ''0'') (rev withPoint)))
                    else str2);
            str4 = dropWhile (\<lambda>c. c = CHR ''0'') str3;
            str5 = (if str4 \<noteq> [] \<and> hd str4 = CHR ''.'' then CHR ''0'' # str4 else str4);
            sgn_str = (if v x \<ge> 0 then [] else ''-'')
        in sgn_str @ str5)"

section \<open>BigNum: a pair of BigDecs\<close>

record bignum =
  re :: bigdec
  im :: bigdec

text \<open>\<^verbatim>\<open>new BigNum(re, im)\<close> on BigDec arguments keeps them; a missing \<^verbatim>\<open>im\<close> defaults to
  the string \<^verbatim>\<open>"0"\<close>.  (The constructor's parsing of a string such as \<^verbatim>\<open>"1+2i"\<close> is not
  needed here and not modelled.)\<close>

definition BigNum2 :: "bigdec \<Rightarrow> bigdec \<Rightarrow> error + bignum" where
  "BigNum2 r i = Inr \<lparr>re = r, im = i\<rparr>"

definition BigNum1 :: "bigdec \<Rightarrow> error + bignum" where
  "BigNum1 r = bindE (BigDec_string ''0'') (\<lambda>z. Inr \<lparr>re = r, im = z\<rparr>)"

definition isZero_num :: "bignum \<Rightarrow> bool" where
  "isZero_num z = (isZero (re z) \<and> isZero (im z))"

text \<open>\<^verbatim>\<open>BigNum.prototype.abs\<close> returns the BigNum itself, a new BigNum, or the BigDec that
  \<^verbatim>\<open>sqrt\<close> returns.\<close>

datatype abs_result = IsBigNum bignum | IsBigDec bigdec

definition abs_num :: "bignum \<Rightarrow> error + abs_result" where
  "abs_num z =
     (if isZero (re z) then Inr (IsBigNum z)
      else if isZero (im z) then bindE (BigNum1 (im z)) (\<lambda>r. Inr (IsBigNum r))
      else
        bindE (square (re z)) (\<lambda>r2.
        bindE (square (im z)) (\<lambda>i2.
        bindE (add r2 i2) (\<lambda>s.
        bindE (sqrt_dec s) (\<lambda>r. Inr (IsBigDec r))))))"

text \<open>The number a BigDec stands for: \<open>v \<times> 10^(-dp)\<close>.\<close>

definition val_of :: "bigdec \<Rightarrow> real" where
  "val_of x = real_of_int (v x) * 10 powi (- dp x)"

section \<open>Evaluating the model on concrete inputs\<close>

text \<open>Unfolding rules that let the simplifier run the definitions on numerals, strictly
  from the outside in: the body of a \<open>let\<close> or of a bind is opened only once its argument
  is a value.\<close>

lemma bindE_Inl: "bindE (Inl e) f = Inl e"
  by (simp add: bindE_def)

lemma bindE_Inr: "bindE (Inr x) f = f x"
  by (simp add: bindE_def)

lemma bindE_weak_cong: "m = m' \<Longrightarrow> bindE m f = bindE m' f"
  by simp

lemma replicate_unfold: "replicate n x = (if n = 0 then [] else x # replicate (n - 1) x)"
  by (cases n) simp_all

lemma inverse_loop_unfold:
  "inverse_loop i n vUse result =
     (if i = 0 then result
      else if bigint_rem n vUse = 0 then result @ bigint_toString (bigint_div n vUse)
      else inverse_loop (i - 1) (bigint_rem n vUse * 10) vUse
             (result @ bigint_toString (bigint_div n vUse)))"
  by (cases i) (simp_all add: Let_def)

lemma sqrt_loop_unfold:
  "sqrt_loop i this x =
     (if i = 0 then Inr x
      else
        bindE (div_dec this x) (\<lambda>a.
        bindE (add x a) (\<lambda>b.
        bindE (BigDec_string ''2'') (\<lambda>two.
        bindE (div_dec b two) (\<lambda>c.
        bindE (sub c x) (\<lambda>dx.
          if isZero dx then Inr x else sqrt_loop (i - 1) this c))))))"
  by (cases i) (simp_all cong: if_cong)

lemmas prim_defs =
  replicate_unfold bindE_Inl bindE_Inr is_digit_def digit_char_def digit_val_def
  digits_of_nat.simps nat_of_digits_def bigint_toString_def BigInt_string_def slice_off_def
  repeat0_def bit_length.simps round_to_double_def Number_digits_def BigInt_number_def
  bigint_div_def bigint_rem_def FLOAT_PRECISION_def ZERO_def decimal_notation_def
  decimalPoint_of_def clamp_precision_def BigDec_obj_def BigDec_string_def Let_def

lemmas op_defs =
  simplifyPrecision.simps isZero_def clone_def negate_def digitCount_def posDigitCount_def
  eq_def sign_def cmp_def gt_def lt_def shiftLeft_def abs_dec_def add_def sub_def mul_def
  power_of_ten_notation_def inverse_loop_unfold inverse_dec_def div_dec_def square_def
  cube_def sqrt_dec_def toString_def BigNum1_def BigNum2_def isZero_num_def abs_num_def

lemma parse_samples:
  "BigDec_string ''0.5'' = Inr \<lparr>dp = 1, v = 5\<rparr>"
  "BigDec_string ''0.45'' = Inr \<lparr>dp = 2, v = 45\<rparr>"
  "BigDec_string ''-5'' = Inr \<lparr>dp = 0, v = - 5\<rparr>"
  "BigDec_string ''-10'' = Inr \<lparr>dp = 0, v = - 10\<rparr>"
  "BigDec_string ''0.01'' = Inr \<lparr>dp = 2, v = 1\<rparr>"
  "BigDec_string ''99.9'' = Inr \<lparr>dp = 1, v = 999\<rparr>"
  "BigDec_string ''0.1'' = Inr \<lparr>dp = 1, v = 1\<rparr>"
  "BigDec_string ''0.2'' = Inr \<lparr>dp = 1, v = 2\<rparr>"
  "BigDec_string ''-3'' = Inr \<lparr>dp = 0, v = - 3\<rparr>"
  "BigDec_string ''0'' = Inr \<lparr>dp = 0, v = 0\<rparr>"
  by (simp_all add: prim_defs cong: let_weak_cong bindE_weak_cong)

section \<open>Decimal strings and BigInts\<close>

text \<open>\<^verbatim>\<open>BigInt(v.toString() + "0".repeat(k))\<close>, the string form of a multiplication by
  \<open>10^k\<close> that \<^verbatim>\<open>shiftLeft\<close> uses, is that multiplication.\<close>

lemma is_digit_digit_char: "is_digit (digit_char d)"
proof -
  have "d mod 10 < length ''0123456789''" by simp
  then have "''0123456789'' ! (d mod 10) \<in> set ''0123456789''" by (rule nth_mem)
  then show ?thesis unfolding is_digit_def digit_char_def .
qed

lemma digit_val_nth: "k < 10 \<Longrightarrow> digit_val (''0123456789'' ! k) = k"
proof -
  assume "k < 10"
  then have "k \<in> {0, 1, 2, 3, 4, 5, 6, 7, 8, 9}" by auto
  then show ?thesis by (auto simp: digit_val_def)
qed

lemma digit_val_digit_char: "digit_val (digit_char d) = d mod 10"
  unfolding digit_char_def by (rule digit_val_nth) simp

lemma digits_of_nat_digits: "list_all is_digit (digits_of_nat n)"
  by (induction n rule: digits_of_nat.induct)
     (subst digits_of_nat.simps, simp add: is_digit_digit_char)

lemma digits_of_nat_nonempty: "digits_of_nat n \<noteq> []"
  by (subst digits_of_nat.simps) simp

lemma nat_of_digits_snoc: "nat_of_digits (ds @ [c]) = 10 * nat_of_digits ds + digit_val c"
  by (simp add: nat_of_digits_def)

lemma nat_of_digits_of_nat: "nat_of_digits (digits_of_nat n) = n"
proof (induction n rule: digits_of_nat.induct)
  case (1 n)
  show ?case
  proof (cases "n < 10")
    case True
    then show ?thesis
      by (subst digits_of_nat.simps) (simp add: nat_of_digits_def digit_val_digit_char)
  next
    case False
    with 1 have "nat_of_digits (digits_of_nat (n div 10)) = n div 10" by simp
    with False show ?thesis
      by (subst digits_of_nat.simps) (simp add: nat_of_digits_snoc digit_val_digit_char)
  qed
qed

lemma foldl_zeros:
  "foldl (\<lambda>a c. 10 * a + digit_val c) a (replicate k CHR ''0'') = a * 10 ^ k"
  by (induction k arbitrary: a) (simp_all add: digit_val_def)

lemma nat_of_digits_zeros:
  "nat_of_digits (ds @ replicate k CHR ''0'') = nat_of_digits ds * 10 ^ k"
  by (simp add: nat_of_digits_def foldl_zeros)

lemma zeros_digits: "list_all is_digit (replicate k CHR ''0'')"
  by (induction k) (simp_all add: is_digit_def)

lemma hd_digits_of_nat: "is_digit (hd (digits_of_nat n))"
  using digits_of_nat_digits [of n] digits_of_nat_nonempty [of n]
  by (cases "digits_of_nat n") simp_all

lemma is_digit_not_sign: "is_digit c \<Longrightarrow> c \<noteq> CHR ''-'' \<and> c \<noteq> CHR ''+''"
  by (auto simp: is_digit_def)

lemma is_digit_zero: "is_digit CHR ''0''"
  by (simp add: is_digit_def)

lemma BigInt_string_shifted:
  "BigInt_string (bigint_toString w @ replicate k CHR ''0'') = Inr (w * 10 ^ k)"
proof (cases "w < 0")
  case True
  let ?ds = "digits_of_nat (nat (- w)) @ replicate k CHR ''0''"
  have "?ds \<noteq> []" by (simp add: digits_of_nat_nonempty)
  moreover have "list_all is_digit ?ds"
    by (simp add: digits_of_nat_digits zeros_digits)
  moreover have "int (nat_of_digits ?ds) = - w * 10 ^ k"
    using True by (simp add: nat_of_digits_zeros nat_of_digits_of_nat)
  ultimately show ?thesis
    using True by (simp add: BigInt_string_def bigint_toString_def)
next
  case False
  let ?ds = "digits_of_nat (nat w) @ replicate k CHR ''0''"
  have ne: "?ds \<noteq> []" by (simp add: digits_of_nat_nonempty)
  have "hd ?ds = hd (digits_of_nat (nat w))" by (simp add: digits_of_nat_nonempty)
  then have hd: "hd ?ds \<noteq> CHR ''-''" "hd ?ds \<noteq> CHR ''+''"
    using is_digit_not_sign [OF hd_digits_of_nat [of "nat w"]] by simp_all
  have all: "list_all is_digit ?ds"
    by (simp add: digits_of_nat_digits zeros_digits)
  have "int (nat_of_digits ?ds) = w * 10 ^ k"
    using False by (simp add: nat_of_digits_zeros nat_of_digits_of_nat)
  with hd all False show ?thesis
    by (simp add: BigInt_string_def bigint_toString_def digits_of_nat_nonempty)
qed

lemma clamp_precision_id: "dp x \<le> FLOAT_PRECISION \<Longrightarrow> clamp_precision x = Inr x"
  by (simp add: clamp_precision_def)

lemma shiftLeft_exact:
  assumes "0 \<le> k" and "dp x + k \<le> FLOAT_PRECISION"
  shows "shiftLeft x k = Inr \<lparr>dp = dp x + k, v = v x * 10 ^ nat k\<rparr>"
  using assms
  by (simp add: shiftLeft_def repeat0_def bindE_Inr BigInt_string_shifted BigDec_obj_def
        clamp_precision_id)

lemma add_exact:
  assumes "dp x \<le> FLOAT_PRECISION" and "dp y \<le> FLOAT_PRECISION"
  shows "add x y = Inr \<lparr>dp = max (dp x) (dp y),
                        v = v x * 10 ^ nat (max (dp x) (dp y) - dp x)
                          + v y * 10 ^ nat (max (dp x) (dp y) - dp y)\<rparr>"
proof -
  consider "dp x = dp y" | "dp x > dp y" | "dp x < dp y" by linarith
  then show ?thesis
  proof cases
    case 1
    with assms show ?thesis
      by (simp add: add_def BigDec_obj_def clamp_precision_id)
  next
    case 2
    with assms have "shiftLeft y (dp x - dp y) = Inr \<lparr>dp = dp x, v = v y * 10 ^ nat (dp x - dp y)\<rparr>"
      using shiftLeft_exact [of "dp x - dp y" y] by simp
    with 2 assms show ?thesis
      by (simp add: add_def Let_def bindE_Inr BigDec_obj_def clamp_precision_id max_def)
  next
    case 3
    with assms have "shiftLeft x (dp y - dp x) = Inr \<lparr>dp = dp y, v = v x * 10 ^ nat (dp y - dp x)\<rparr>"
      using shiftLeft_exact [of "dp y - dp x" x] by simp
    with 3 assms show ?thesis
      by (simp add: add_def Let_def bindE_Inr BigDec_obj_def clamp_precision_id max_def)
  qed
qed

lemma val_of_shift:
  assumes "d \<le> m"
  shows "real_of_int (w * 10 ^ nat (m - d)) * 10 powi (- m) = real_of_int w * 10 powi (- d)"
proof -
  have "(10::real) powi (- m) = 10 powi (- d - (m - d))" by simp
  also have "\<dots> = 10 powi (- d) / 10 powi (m - d)"
    by (rule power_int_diff) simp
  also have "(10::real) powi (m - d) = 10 ^ nat (m - d)"
    using assms by (simp add: power_int_def)
  finally show ?thesis by simp
qed

lemma val_of_add:
  assumes "dp x \<le> FLOAT_PRECISION" and "dp y \<le> FLOAT_PRECISION" and "add x y = Inr r"
  shows "val_of r = val_of x + val_of y"
proof -
  let ?m = "max (dp x) (dp y)"
  let ?a = "v x * 10 ^ nat (?m - dp x)"
  let ?b = "v y * 10 ^ nat (?m - dp y)"
  have r: "r = \<lparr>dp = ?m, v = ?a + ?b\<rparr>"
    using add_exact [OF assms(1,2)] assms(3) by simp
  have a: "real_of_int ?a * 10 powi (- ?m) = val_of x"
    unfolding val_of_def by (rule val_of_shift) simp
  have b: "real_of_int ?b * 10 powi (- ?m) = val_of y"
    unfolding val_of_def by (rule val_of_shift) simp
  have "val_of r = real_of_int (?a + ?b) * 10 powi (- ?m)"
    unfolding r val_of_def by simp
  also have "\<dots> = real_of_int ?a * 10 powi (- ?m) + real_of_int ?b * 10 powi (- ?m)"
    by (simp only: of_int_add distrib_right)
  finally show ?thesis
    by (simp only: a b)
qed

lemma negate_exact: "dp y \<le> FLOAT_PRECISION \<Longrightarrow> negate y = Inr \<lparr>dp = dp y, v = - v y\<rparr>"
  by (simp add: negate_def BigDec_obj_def clamp_precision_id)

text \<open>The constructor leaves no scale above \<^verbatim>\<open>FLOAT_PRECISION\<close>, and
  \<^verbatim>\<open>_simplifyPrecision\<close> only lowers a scale: every BigDec that the kernel hands out has
  \<open>dp \<le> FLOAT_PRECISION\<close>.\<close>

lemma bindE_eq_Inl: "bindE m f = Inl e \<longleftrightarrow> m = Inl e \<or> (\<exists>a. m = Inr a \<and> f a = Inl e)"
  by (cases m) (simp_all add: bindE_def)

lemma bindE_eq_Inr: "bindE m f = Inr r \<longleftrightarrow> (\<exists>a. m = Inr a \<and> f a = Inr r)"
  by (cases m) (simp_all add: bindE_def)

lemma clamp_precision_scale: "clamp_precision x = Inr r \<Longrightarrow> dp r \<le> FLOAT_PRECISION"
  by (auto simp: clamp_precision_def Let_def bindE_eq_Inr split: if_splits)

lemma BigDec_obj_scale: "BigDec_obj x = Inr r \<Longrightarrow> dp r \<le> FLOAT_PRECISION"
  unfolding BigDec_obj_def by (rule clamp_precision_scale)

lemma BigDec_string_scale: "BigDec_string s = Inr r \<Longrightarrow> dp r \<le> FLOAT_PRECISION"
  by (auto simp: BigDec_string_def Let_def bindE_eq_Inr ZERO_def FLOAT_PRECISION_def
        dest: clamp_precision_scale split: if_splits)

lemma simplifyPrecision_scale: "dp (simplifyPrecision x) \<le> dp x"
proof (induction x rule: simplifyPrecision.induct)
  case (1 x)
  show ?case
  proof (cases "dp x > 0 \<and> bigint_rem (v x) 10 = 0")
    case True
    with 1 have "dp (simplifyPrecision \<lparr>dp = dp x - 1, v = bigint_div (v x) 10\<rparr>) \<le> dp x - 1"
      by simp
    moreover from True
    have "simplifyPrecision x = simplifyPrecision \<lparr>dp = dp x - 1, v = bigint_div (v x) 10\<rparr>"
      using simplifyPrecision.simps [of x] by simp
    ultimately show ?thesis by simp
  next
    case False
    then have "simplifyPrecision x = x"
      using simplifyPrecision.simps [of x] by auto
    then show ?thesis by simp
  qed
qed

lemma mul_scale: "mul x y = Inr r \<Longrightarrow> dp r \<le> FLOAT_PRECISION"
  unfolding mul_def by (rule BigDec_obj_scale)

lemma inverse_dec_scale: "inverse_dec x = Inr r \<Longrightarrow> dp r \<le> FLOAT_PRECISION"
  by (auto simp: inverse_dec_def Let_def bindE_eq_Inr dest: BigDec_obj_scale split: if_splits)

lemma div_dec_scale: "div_dec x y = Inr r \<Longrightarrow> dp r \<le> FLOAT_PRECISION"
proof -
  assume "div_dec x y = Inr r"
  from \<open>div_dec x y = Inr r\<close> obtain i p where "mul x i = Inr p" and r: "r = simplifyPrecision p"
    by (auto simp: div_dec_def bindE_eq_Inr)
  then have "dp p \<le> FLOAT_PRECISION" by (auto dest: mul_scale)
  with simplifyPrecision_scale [of p] show ?thesis unfolding r by linarith
qed

text \<open>\<^verbatim>\<open>inverse\<close> throws the division-by-zero error on zero and on nothing else.\<close>

lemma BigInt_string_not_DivisionByZero: "BigInt_string s \<noteq> Inl DivisionByZero"
  by (simp add: BigInt_string_def Let_def)

lemma repeat0_not_DivisionByZero: "repeat0 k \<noteq> Inl DivisionByZero"
  by (simp add: repeat0_def)

lemma BigDec_obj_not_DivisionByZero: "BigDec_obj x \<noteq> Inl DivisionByZero"
  by (simp add: BigDec_obj_def clamp_precision_def Let_def bindE_eq_Inl
        BigInt_string_not_DivisionByZero)

lemma inverse_DivisionByZero_iff: "inverse_dec x = Inl DivisionByZero \<longleftrightarrow> isZero x"
  by (simp add: inverse_dec_def Let_def bindE_eq_Inl BigInt_string_not_DivisionByZero
        repeat0_not_DivisionByZero BigDec_obj_not_DivisionByZero)

lemma div_DivisionByZero_iff: "div_dec y x = Inl DivisionByZero \<longleftrightarrow> isZero x"
  by (auto simp: div_dec_def bindE_eq_Inl mul_def BigDec_obj_not_DivisionByZero
        inverse_DivisionByZero_iff)

lemma inverse_sample:
  "inverse_dec \<lparr>dp = 0, v = - 30000000000000000000\<rparr> = Inl SyntaxError"
  by (simp add: prim_defs op_defs cong: let_weak_cong bindE_weak_cong)

section \<open>The claims\<close>

text \<open>
  C1 (the code departs from the claim).  The claim: parsing is exact for magnitudes of any
  length, the magnitude being the digit string read as an unbounded integer, for instance on
  the 19-digit input \<^verbatim>\<open>"1234567890123456789"\<close>.  The constructor computes
  \<^verbatim>\<open>BigInt(sign * val)\<close>, and the product of a number and a string is a double: the
  string is accepted by the grammar, its digits denote \<open>1234567890123456789\<close>, and the
  BigDec that comes back holds \<open>1234567890123456768\<close>.
\<close>

theorem C1_parse_rounds_long_magnitude:
  "decimal_notation ''1234567890123456789''
   \<and> nat_of_digits ''1234567890123456789'' = 1234567890123456789
   \<and> BigDec_string ''1234567890123456789'' = Inr \<lparr>dp = 0, v = 1234567890123456768\<rparr>"
  by (simp add: prim_defs cong: let_weak_cong bindE_weak_cong)

text \<open>
  C2 (the code departs from the claim).  The claim: \<^verbatim>\<open>cmp\<close> orders by numeric value, and on
  a tie of the integer-part digit counts compares the magnitudes aligned to one scale, so
  that \<^verbatim>\<open>cmp\<close> of 0.5 and 0.45 is "greater".  The last line of \<^verbatim>\<open>cmp\<close> compares the two
  \<^verbatim>\<open>v\<close> as they are: 0.5 is \<open>(dp 1, v 5)\<close>, 0.45 is \<open>(dp 2, v 45)\<close>, both have integer-part
  digit count 0, and \<open>5 > 45\<close> is false, so the result is \<open>-1\<close> although 0.5 is the larger
  number.
\<close>

theorem C2_cmp_unaligned_magnitudes:
  "BigDec_string ''0.5'' = Inr \<lparr>dp = 1, v = 5\<rparr>
   \<and> BigDec_string ''0.45'' = Inr \<lparr>dp = 2, v = 45\<rparr>
   \<and> posDigitCount \<lparr>dp = 1, v = 5\<rparr> = posDigitCount \<lparr>dp = 2, v = 45\<rparr>
   \<and> cmp \<lparr>dp = 1, v = 5\<rparr> \<lparr>dp = 2, v = 45\<rparr> = - 1
   \<and> val_of \<lparr>dp = 1, v = 5\<rparr> > val_of \<lparr>dp = 2, v = 45\<rparr>"
  by (simp add: parse_samples val_of_def prim_defs op_defs cong: let_weak_cong bindE_weak_cong)

text \<open>
  C3.  Addition and subtraction are exact: for all decimals \<open>x\<close> and \<open>y\<close> (BigDecs as the
  constructor leaves them, with scale at most \<^verbatim>\<open>FLOAT_PRECISION\<close>), \<^verbatim>\<open>x.add(y)\<close> returns a
  decimal whose value is the sum of the two values and whose scale is the larger of the two
  scales; \<^verbatim>\<open>x.sub(y)\<close> is \<^verbatim>\<open>x.add(y.negate())\<close> and returns the difference at the same
  scale; and \<^verbatim>\<open>parse("0.1").add(parse("0.2"))\<close> renders as \<^verbatim>\<open>"0.3"\<close>.
\<close>

theorem C3_add_sub_exact:
  assumes "dp x \<le> FLOAT_PRECISION" and "dp y \<le> FLOAT_PRECISION"
  shows "(\<exists>r. add x y = Inr r \<and> val_of r = val_of x + val_of y \<and> dp r = max (dp x) (dp y))
       \<and> (\<exists>n r. negate y = Inr n \<and> sub x y = add x n \<and> sub x y = Inr r
              \<and> val_of r = val_of x - val_of y \<and> dp r = max (dp x) (dp y))
       \<and> (\<exists>a b r. BigDec_string ''0.1'' = Inr a \<and> BigDec_string ''0.2'' = Inr b
              \<and> add a b = Inr r \<and> toString r = ''0.3'')"
proof -
  let ?n = "\<lparr>dp = dp y, v = - v y\<rparr>"
  have n: "negate y = Inr ?n" using assms(2) by (rule negate_exact)
  have dn: "dp ?n \<le> FLOAT_PRECISION" using assms(2) by simp
  have vn: "val_of ?n = - val_of y" by (simp add: val_of_def)
  obtain r where r: "add x y = Inr r" "dp r = max (dp x) (dp y)"
    using add_exact [OF assms] by simp
  obtain s where s: "add x ?n = Inr s" "dp s = max (dp x) (dp y)"
    using add_exact [OF assms(1) dn] by simp
  have vr: "val_of r = val_of x + val_of y" using assms r(1) by (rule val_of_add)
  have vs: "val_of s = val_of x - val_of y"
    using val_of_add [OF assms(1) dn s(1)] vn by simp
  have sub: "sub x y = add x ?n" by (simp add: sub_def n bindE_Inr)
  have "add \<lparr>dp = 1, v = 1\<rparr> \<lparr>dp = 1, v = 2\<rparr> = Inr \<lparr>dp = 1, v = 3\<rparr>"
    by (simp add: add_def BigDec_obj_def clamp_precision_id FLOAT_PRECISION_def)
  moreover have "toString \<lparr>dp = 1, v = 3\<rparr> = ''0.3''"
    by (simp add: prim_defs toString_def isZero_def cong: let_weak_cong)
  ultimately have ex: "\<exists>a b r. BigDec_string ''0.1'' = Inr a \<and> BigDec_string ''0.2'' = Inr b
      \<and> add a b = Inr r \<and> toString r = ''0.3''"
    using parse_samples(7,8) by blast
  from r vr have "\<exists>r. add x y = Inr r \<and> val_of r = val_of x + val_of y \<and> dp r = max (dp x) (dp y)"
    by blast
  moreover from n sub s vs
  have "\<exists>n r. negate y = Inr n \<and> sub x y = add x n \<and> sub x y = Inr r
          \<and> val_of r = val_of x - val_of y \<and> dp r = max (dp x) (dp y)"
    by auto
  ultimately show ?thesis using ex by blast
qed

theorem C3_add_sub_exact_witness:
  "dp \<lparr>dp = 1, v = - 5\<rparr> \<le> FLOAT_PRECISION \<and> dp \<lparr>dp = 3, v = 125\<rparr> \<le> FLOAT_PRECISION
   \<and> (\<exists>r. add \<lparr>dp = 1, v = - 5\<rparr> \<lparr>dp = 3, v = 125\<rparr> = Inr r
          \<and> val_of r = val_of \<lparr>dp = 1, v = - 5\<rparr> + val_of \<lparr>dp = 3, v = 125\<rparr> \<and> dp r = 3)
   \<and> (\<exists>r. sub \<lparr>dp = 1, v = - 5\<rparr> \<lparr>dp = 3, v = 125\<rparr> = Inr r
          \<and> val_of r = val_of \<lparr>dp = 1, v = - 5\<rparr> - val_of \<lparr>dp = 3, v = 125\<rparr> \<and> dp r = 3)"
proof -
  have h1: "dp \<lparr>dp = 1, v = - 5\<rparr> \<le> FLOAT_PRECISION" by (simp add: FLOAT_PRECISION_def)
  have h2: "dp \<lparr>dp = 3, v = 125\<rparr> \<le> FLOAT_PRECISION" by (simp add: FLOAT_PRECISION_def)
  from C3_add_sub_exact [OF h1 h2] h1 h2 show ?thesis by auto
qed

text \<open>
  C4 (the code departs from the claim).  The claim: \<^verbatim>\<open>abs\<close> forces the sign to +1, so that
  \<^verbatim>\<open>parse("-5").abs().toString()\<close> is \<^verbatim>\<open>"5"\<close>.  \<^verbatim>\<open>abs\<close> hands the constructor a
  \<^verbatim>\<open>sign: 1\<close> that nothing reads and the same signed \<^verbatim>\<open>v\<close>: the absolute value of \<open>-5\<close>
  is \<open>-5\<close> again and renders as \<^verbatim>\<open>"-5"\<close>.
\<close>

theorem C4_abs_keeps_negative:
  "BigDec_string ''-5'' = Inr \<lparr>dp = 0, v = - 5\<rparr>
   \<and> abs_dec \<lparr>dp = 0, v = - 5\<rparr> = Inr \<lparr>dp = 0, v = - 5\<rparr>
   \<and> toString \<lparr>dp = 0, v = - 5\<rparr> = ''-5''
   \<and> val_of \<lparr>dp = 0, v = - 5\<rparr> < 0"
  by (simp add: parse_samples val_of_def prim_defs op_defs cong: let_weak_cong bindE_weak_cong)

text \<open>
  C5 (the code departs from the claim).  The claim: the reciprocal has the sign of its
  operand, also on the power-of-ten path, so that the reciprocal of \<open>-10\<close> is negative.  On
  that path, when the new scale is positive, \<^verbatim>\<open>inverse\<close> returns
  \<^verbatim>\<open>new BigDec({dp, v: 1n})\<close>: the reciprocal of \<open>-10\<close> is \<open>(dp 1, v 1)\<close>, that is \<open>+0.1\<close>.
\<close>

theorem C5_inverse_power_of_ten_drops_sign:
  "BigDec_string ''-10'' = Inr \<lparr>dp = 0, v = - 10\<rparr>
   \<and> sign \<lparr>dp = 0, v = - 10\<rparr> = - 1
   \<and> inverse_dec \<lparr>dp = 0, v = - 10\<rparr> = Inr \<lparr>dp = 1, v = 1\<rparr>
   \<and> sign \<lparr>dp = 1, v = 1\<rparr> = 1"
  by (simp add: parse_samples prim_defs op_defs cong: let_weak_cong bindE_weak_cong)

text \<open>
  C6 (the code departs from the claim).  The claim: the square root is exact on perfect
  squares, also on those with magnitude 1 and a positive scale such as \<open>0.01 = 0.1\<^sup>2\<close>.
  \<^verbatim>\<open>sqrt\<close> returns its operand whenever \<^verbatim>\<open>v\<close> is \<open>0n\<close> or \<open>1n\<close>, whatever the scale: the
  square root of 0.01 is 0.01, and its square is 0.0001.
\<close>

theorem C6_sqrt_of_hundredth:
  "BigDec_string ''0.01'' = Inr \<lparr>dp = 2, v = 1\<rparr>
   \<and> sqrt_dec \<lparr>dp = 2, v = 1\<rparr> = Inr \<lparr>dp = 2, v = 1\<rparr>
   \<and> mul \<lparr>dp = 2, v = 1\<rparr> \<lparr>dp = 2, v = 1\<rparr> = Inr \<lparr>dp = 4, v = 1\<rparr>
   \<and> val_of \<lparr>dp = 4, v = 1\<rparr> \<noteq> val_of \<lparr>dp = 2, v = 1\<rparr>"
  by (simp add: parse_samples val_of_def prim_defs op_defs cong: let_weak_cong bindE_weak_cong)

text \<open>
  C7 (the code departs from the claim).  The claim: the rendering of every decimal reachable
  by parsing and arithmetic is canonical, with no trailing \<^verbatim>\<open>"."\<close>, for instance for
  \<^verbatim>\<open>parse("99.9").add(parse("0.1"))\<close>.  The sum is \<open>(dp 1, v 1000)\<close>; \<^verbatim>\<open>toString\<close> inserts the
  point, strips the zeros after it and stops at the point, which stays: \<^verbatim>\<open>"100."\<close>.
\<close>

theorem C7_toString_trailing_point:
  "BigDec_string ''99.9'' = Inr \<lparr>dp = 1, v = 999\<rparr>
   \<and> BigDec_string ''0.1'' = Inr \<lparr>dp = 1, v = 1\<rparr>
   \<and> add \<lparr>dp = 1, v = 999\<rparr> \<lparr>dp = 1, v = 1\<rparr> = Inr \<lparr>dp = 1, v = 1000\<rparr>
   \<and> toString \<lparr>dp = 1, v = 1000\<rparr> = ''100.''"
  by (simp add: parse_samples prim_defs op_defs cong: let_weak_cong bindE_weak_cong)

text \<open>
  C8 (the code departs from the claim).  The claim: the magnitude of a complex number with
  imaginary part zero is \<open>|re|\<close>, so that for \<open>re = -3\<close>, \<open>im = 0\<close> it is 3.  With a zero
  imaginary part \<^verbatim>\<open>abs\<close> returns \<^verbatim>\<open>new BigNum(this.im)\<close>, the complex number whose real part
  is that zero and whose imaginary part is the default \<^verbatim>\<open>"0"\<close>: the magnitude of \<open>-3\<close> is the
  complex zero.
\<close>

theorem C8_complex_abs_of_real:
  "BigDec_string ''-3'' = Inr \<lparr>dp = 0, v = - 3\<rparr>
   \<and> BigDec_string ''0'' = Inr ZERO
   \<and> abs_num \<lparr>re = \<lparr>dp = 0, v = - 3\<rparr>, im = ZERO\<rparr> = Inr (IsBigNum \<lparr>re = ZERO, im = ZERO\<rparr>)
   \<and> isZero_num \<lparr>re = ZERO, im = ZERO\<rparr>"
  by (simp add: prim_defs op_defs cong: let_weak_cong bindE_weak_cong)

text \<open>
  C9 (the code departs from the claim).  The claim: \<^verbatim>\<open>inverse\<close> (and \<^verbatim>\<open>div\<close>) throws the
  division-by-zero error exactly on a zero operand and returns normally on every other one.
  The first half holds (\<open>inverse_DivisionByZero_iff\<close>, \<open>div_DivisionByZero_iff\<close>).  The second does not: for
  \<open>x = -30000000000000000000\<close> the long division yields a 21-digit quotient at scale 41,
  the constructor slices 21 characters off \<^verbatim>\<open>"-333333333333333333333"\<close>, and
  \<^verbatim>\<open>BigInt("-")\<close> throws a \<^verbatim>\<open>SyntaxError\<close>; \<^verbatim>\<open>div\<close> by that \<open>x\<close> throws the same.
\<close>

theorem C9_inverse_of_nonzero_throws:
  "BigDec_string ''-30000000000000000000'' = Inr \<lparr>dp = 0, v = - 30000000000000000000\<rparr>
   \<and> \<not> isZero \<lparr>dp = 0, v = - 30000000000000000000\<rparr>
   \<and> inverse_dec \<lparr>dp = 0, v = - 30000000000000000000\<rparr> = Inl SyntaxError
   \<and> div_dec \<lparr>dp = 0, v = 1\<rparr> \<lparr>dp = 0, v = - 30000000000000000000\<rparr> = Inl SyntaxError"
  by (simp add: inverse_sample div_dec_def isZero_def prim_defs cong: let_weak_cong bindE_weak_cong)

text \<open>
  C10.  There is an input accepted by the decimal grammar, a negative number whose non-zero
  digits all lie beyond the 20th place after the point, on which the constructor throws an
  error that is none of \<open>InvalidFormat\<close>, \<open>DivisionByZero\<close>, \<open>NegativeSquareRoot\<close>, while
  the same string without the sign parses to zero: on \<^verbatim>\<open>"-0.000000000000000000001"\<close> the
  scale is 21 and \<^verbatim>\<open>v\<close> is \<open>-1n\<close>, the clamp slices \<^verbatim>\<open>"-1"\<close> down to \<^verbatim>\<open>"-"\<close>, and
  \<^verbatim>\<open>BigInt("-")\<close> throws a \<^verbatim>\<open>SyntaxError\<close>.
\<close>

theorem C10_negative_underflow_throws_SyntaxError:
  "decimal_notation ''-0.000000000000000000001''
   \<and> BigDec_string ''-0.000000000000000000001'' = Inl SyntaxError
   \<and> SyntaxError \<noteq> InvalidFormat \<and> SyntaxError \<noteq> DivisionByZero
   \<and> SyntaxError \<noteq> NegativeSquareRoot
   \<and> BigDec_string ''0.000000000000000000001'' = Inr \<lparr>dp = 20, v = 0\<rparr>
   \<and> isZero \<lparr>dp = 20, v = 0\<rparr>"
  by (simp add: isZero_def prim_defs cong: let_weak_cong bindE_weak_cong)

end
